theory Spec2Isabelle
  imports Complex_Main "HOL-Library.Sublist"
begin

section \<open>The JSON metric collector of json\_exporter (exporter/collector.go)\<close>

text \<open>
  The collector is embedded function by function. Byte slices and Go strings are
  \<^typ>\<open>string\<close> (lists of bytes). A Go \<open>error\<close> is a value of \<open>go_error\<close>; every function
  of the source that returns \<open>(string, error)\<close> returns a sum here, \<open>Inl\<close> the error. A runtime
  panic is a value of \<open>panic\<close>: a function that can panic returns \<open>panic + 'a\<close>, and a run of
  \<open>Collect\<close> returns the observations it sent on the channel before it returned or panicked,
  with \<open>Some\<close> of the panic when it did not return. Calls of the logger (which the command
  always sets) change nothing that the collector computes and are left out; the logger itself
  is kept as an argument, as in the source.
\<close>

subsection \<open>Data\<close>

datatype go_error = GoError string

datatype panic = Panic string

text \<open>\<open>config.ScrapeType\<close> is a string type with two named constants; every other value
  reaches the \<open>default\<close> arm of the switch in \<open>Collect\<close>.\<close>

datatype ScrapeType = ValueScrape | ObjectScrape | OtherScrape string

datatype prometheus_ValueType = CounterValue | GaugeValue | UntypedValue

text \<open>\<open>prometheus.Desc\<close> as \<open>prometheus.NewDesc(fqName, help, variableLabels, constLabels)\<close>
  builds it (\<open>helpText\<close> is its \<open>help\<close> argument).\<close>

record prometheus_Desc =
  fqName :: string
  helpText :: string
  variableLabels :: "string list"
  constLabels :: "(string \<times> string) list"

text \<open>\<open>config.ValueConverterType\<close> is \<open>map[string]map[string]string\<close>; \<open>None\<close> is the nil map.\<close>

type_synonym ValueConverterType = "(string \<rightharpoonup> (string \<rightharpoonup> string)) option"

record JSONMetric =
  Desc :: prometheus_Desc
  Type :: ScrapeType
  KeyJSONPath :: string
  ValueJSONPath :: string
  LabelsJSONPaths :: "string list"
  ValueType :: prometheus_ValueType
  ValueConverter :: ValueConverterType
  EpochTimestampJSONPath :: string

record 'l JSONMetricCollector =
  JSONMetrics :: "JSONMetric list"
  Data :: string
  Logger :: 'l

text \<open>
  An observation: the constant metric that \<open>prometheus.MustNewConstMetric\<close> builds and
  \<open>Collect\<close> sends on its channel. A constant metric carries no timestamp of its own (the
  library attaches one only through \<open>NewMetricWithTimestamp\<close>), which is \<open>timestamp = None\<close>.
  \<open>'f\<close> stands for \<open>float64\<close>.
\<close>

record 'f Metric =
  desc :: prometheus_Desc
  valueType :: prometheus_ValueType
  metricValue :: 'f
  labelValues :: "string list"
  timestamp :: "int option"

subsection \<open>The libraries the collector calls\<close>

text \<open>
  The source calls \<open>encoding/json\<close>, \<open>k8s.io/client-go/util/jsonpath\<close>, \<open>strings.ToLower\<close>,
  \<open>prometheus.MustNewConstMetric\<close> and the repository's own \<open>SanitizeValue\<close> (exporter/util.go,
  not part of the sources at hand). They are parameters of the embedding, collected in one
  record; every definition and theorem below holds for any such functions.
  \<^item> \<open>'j\<close> is a decoded JSON value (\<open>interface{}\<close>), \<open>'p\<close> a parsed path template.
  \<^item> \<open>json_Unmarshal\<close> decodes into \<open>interface{}\<close>, \<open>json_Unmarshal_slice\<close> into
    \<open>[]interface{}\<close>.
  \<^item> \<open>jsonpath_Execute p b v\<close> is what \<open>Execute\<close> writes to the buffer for the template \<open>p\<close>
    on \<open>v\<close>, with JSON output enabled iff \<open>b\<close>.
  \<^item> \<open>NewConstMetric_err d ls\<close> is the error \<open>prometheus.NewConstMetric\<close> returns for the
    descriptor \<open>d\<close> and the label values \<open>ls\<close>, if any (an invalid descriptor, a number of
    label values that differs from the descriptor's).
\<close>

record ('j, 'p, 'f) env =
  json_Unmarshal :: "string \<Rightarrow> go_error + 'j"
  json_Unmarshal_slice :: "string \<Rightarrow> go_error + 'j list"
  json_Marshal :: "'j \<Rightarrow> go_error + string"
  jsonpath_Parse :: "string \<Rightarrow> go_error + 'p"
  jsonpath_Execute :: "'p \<Rightarrow> bool \<Rightarrow> 'j \<Rightarrow> go_error + string"
  jsonpath_UnquoteExtend :: "string \<Rightarrow> go_error + string"
  strings_ToLower :: "string \<Rightarrow> string"
  SanitizeValue :: "string \<Rightarrow> go_error + 'f"
  NewConstMetric_err :: "prometheus_Desc \<Rightarrow> string list \<Rightarrow> go_error option"

text \<open>\<open>MustNewConstMetric\<close> panics where \<open>NewConstMetric\<close> returns an error.\<close>

definition MustNewConstMetric ::
  "('j, 'p, 'f) env \<Rightarrow> prometheus_Desc \<Rightarrow> prometheus_ValueType \<Rightarrow> 'f \<Rightarrow> string list
    \<Rightarrow> panic + 'f Metric" where
  "MustNewConstMetric env d vt v labels =
     (case NewConstMetric_err env d labels of
        Some (GoError e) \<Rightarrow> Inl (Panic e)
      | None \<Rightarrow> Inr \<lparr>desc = d, valueType = vt, metricValue = v, labelValues = labels,
                      timestamp = None\<rparr>)"

text \<open>\<open>strings.Contains\<close>: some suffix of \<open>s\<close> starts with \<open>substr\<close>.\<close>

fun strings_Contains :: "string \<Rightarrow> string \<Rightarrow> bool" where
  "strings_Contains [] substr = (substr = [])"
| "strings_Contains (c # s) substr = (prefix substr (c # s) \<or> strings_Contains s substr)"

subsection \<open>The collector's functions\<close>

definition jsonExporterStatusDesc :: prometheus_Desc where
  "jsonExporterStatusDesc =
     \<lparr>fqName = ''json_exporter_status'',
      helpText = ''Up/Down Status of JSON Exporter. Should always be 0.'',
      variableLabels = [], constLabels = []\<rparr>"

text \<open>\<open>extractValue\<close> (lines 151-185): decode the data, parse the path, execute it, and unquote
  the output where it is a quoted string.\<close>

definition extractValue ::
  "'l \<Rightarrow> ('j, 'p, 'f) env \<Rightarrow> string \<Rightarrow> string \<Rightarrow> bool \<Rightarrow> go_error + string" where
  "extractValue logger env data path enableJSONOutput =
     (case json_Unmarshal env data of
        Inl err \<Rightarrow> Inl err
      | Inr jsonData \<Rightarrow>
          (case jsonpath_Parse env path of
             Inl err \<Rightarrow> Inl err
           | Inr j \<Rightarrow>
               (case jsonpath_Execute env j enableJSONOutput jsonData of
                  Inl err \<Rightarrow> Inl err
                | Inr buf \<Rightarrow>
                    (case jsonpath_UnquoteExtend env buf of
                       Inr res \<Rightarrow> Inr res
                     | Inl err \<Rightarrow> Inr buf))))"

text \<open>\<open>extractLabels\<close> (lines 188-198): \<open>labels\<close> starts as \<open>len(paths)\<close> empty strings; the
  loop stores at index \<open>i\<close> the result for the \<open>i\<close>-th path when its extraction succeeds.\<close>

fun extractLabels_loop ::
  "'l \<Rightarrow> ('j, 'p, 'f) env \<Rightarrow> string \<Rightarrow> nat \<Rightarrow> string list \<Rightarrow> string list \<Rightarrow> string list" where
  "extractLabels_loop logger env data i [] labels = labels"
| "extractLabels_loop logger env data i (path # paths) labels =
     extractLabels_loop logger env data (Suc i) paths
       (case extractValue logger env data path False of
          Inr result \<Rightarrow> labels[i := result]
        | Inl err \<Rightarrow> labels)"

definition extractLabels :: "'l \<Rightarrow> ('j, 'p, 'f) env \<Rightarrow> string \<Rightarrow> string list \<Rightarrow> string list" where
  "extractLabels logger env data paths =
     extractLabels_loop logger env data 0 paths (replicate (length paths) [])"

text \<open>\<open>selectRightJsonData\<close> (lines 227-237). \<open>strings.ReplaceAll(path, " ", "")\<close> drops every
  space. The slice \<open>noSpacePath[0:4]\<close> panics when the string has fewer than four bytes.\<close>

abbreviation noSpace :: "string \<Rightarrow> string" where
  "noSpace path \<equiv> filter (\<lambda>c. c \<noteq> CHR '' '') path"

definition selectRightJsonData :: "string \<Rightarrow> string \<Rightarrow> string \<Rightarrow> panic + string" where
  "selectRightJsonData rootData childData path =
     (let noSpacePath = noSpace path in
      if length noSpacePath < 4
      then Inl (Panic ''runtime error: slice bounds out of range'')
      else if strings_Contains (take 4 noSpacePath) ''$''
      then Inr rootData
      else Inr childData)"

text \<open>\<open>extractLabelsWithParentNode\<close> (lines 200-211): as \<open>extractLabels\<close>, on the data
  that \<open>selectRightJsonData\<close> chooses for each path.\<close>

fun extractLabelsWithParentNode_loop ::
  "'l \<Rightarrow> ('j, 'p, 'f) env \<Rightarrow> string \<Rightarrow> string \<Rightarrow> nat \<Rightarrow> string list \<Rightarrow> string list
    \<Rightarrow> panic + string list" where
  "extractLabelsWithParentNode_loop logger env childData rootData i [] labels = Inr labels"
| "extractLabelsWithParentNode_loop logger env childData rootData i (path # paths) labels =
     (case selectRightJsonData rootData childData path of
        Inl p \<Rightarrow> Inl p
      | Inr selectedData \<Rightarrow>
          extractLabelsWithParentNode_loop logger env childData rootData (Suc i) paths
            (case extractValue logger env selectedData path False of
               Inr result \<Rightarrow> labels[i := result]
             | Inl err \<Rightarrow> labels))"

definition extractLabelsWithParentNode ::
  "'l \<Rightarrow> ('j, 'p, 'f) env \<Rightarrow> string \<Rightarrow> string \<Rightarrow> string list \<Rightarrow> panic + string list" where
  "extractLabelsWithParentNode logger env childData rootData paths =
     extractLabelsWithParentNode_loop logger env childData rootData 0 paths
       (replicate (length paths) [])"

text \<open>\<open>convertValueIfNeeded\<close> (lines 214-225).\<close>

definition convertValueIfNeeded :: "('j, 'p, 'f) env \<Rightarrow> JSONMetric \<Rightarrow> string \<Rightarrow> string" where
  "convertValueIfNeeded env m v =
     (case ValueConverter m of
        None \<Rightarrow> v
      | Some converter \<Rightarrow>
          (case converter (ValueJSONPath m) of
             None \<Rightarrow> v
           | Some valueMappings \<Rightarrow>
               (let v' = strings_ToLower env v in
                case valueMappings v' of
                  Some mapped \<Rightarrow> mapped
                | None \<Rightarrow> v')))"

text \<open>A \<open>for ... range\<close> loop whose body sends observations and may panic: the observations
  of the iterations in order, up to and including those of an iteration that panics.\<close>

fun range_loop :: "('a \<Rightarrow> 'b list \<times> panic option) \<Rightarrow> 'a list \<Rightarrow> 'b list \<times> panic option" where
  "range_loop body [] = ([], None)"
| "range_loop body (x # xs) =
     (case body x of
        (sent, Some p) \<Rightarrow> (sent, Some p)
      | (sent, None) \<Rightarrow>
          (case range_loop body xs of (sent', r) \<Rightarrow> (sent @ sent', r)))"

text \<open>The body of the inner loop of \<open>Collect\<close> (lines 105-135), for one element of the
  array. The arguments of \<open>MustNewConstMetric\<close> are evaluated before it is called, so the
  labels are resolved first.\<close>

definition Collect_element ::
  "('j, 'p, 'f) env \<Rightarrow> 'l JSONMetricCollector \<Rightarrow> JSONMetric \<Rightarrow> 'j \<Rightarrow> 'f Metric list \<times> panic option"
  where
  "Collect_element env mc m data =
     (case json_Marshal env data of
        Inl err \<Rightarrow> ([], None)
      | Inr jdata \<Rightarrow>
          (case extractValue (Logger mc) env jdata (ValueJSONPath m) False of
             Inl err \<Rightarrow> ([], None)
           | Inr v \<Rightarrow>
               (case SanitizeValue env (convertValueIfNeeded env m v) of
                  Inl err \<Rightarrow> ([], None)
                | Inr floatValue \<Rightarrow>
                    (case extractLabelsWithParentNode (Logger mc) env jdata (Data mc)
                            (LabelsJSONPaths m) of
                       Inl p \<Rightarrow> ([], Some p)
                     | Inr labels \<Rightarrow>
                         (case MustNewConstMetric env (Desc m) (ValueType m) floatValue labels of
                            Inl p \<Rightarrow> ([], Some p)
                          | Inr metric \<Rightarrow> ([metric], None))))))"

text \<open>The body of the outer loop of \<open>Collect\<close> (lines 67-143), for one descriptor.\<close>

definition Collect_metric ::
  "('j, 'p, 'f) env \<Rightarrow> 'l JSONMetricCollector \<Rightarrow> JSONMetric \<Rightarrow> 'f Metric list \<times> panic option"
  where
  "Collect_metric env mc m =
     (case Type m of
        ValueScrape \<Rightarrow>
          (case extractValue (Logger mc) env (Data mc) (KeyJSONPath m) False of
             Inl err \<Rightarrow> ([], None)
           | Inr v \<Rightarrow>
               (case SanitizeValue env v of
                  Inr floatValue \<Rightarrow>
                    (case MustNewConstMetric env (Desc m) (ValueType m) floatValue
                            (extractLabels (Logger mc) env (Data mc) (LabelsJSONPaths m)) of
                       Inl p \<Rightarrow> ([], Some p)
                     | Inr metric \<Rightarrow> ([metric], None))
                | Inl err \<Rightarrow> ([], None)))
      | ObjectScrape \<Rightarrow>
          (case extractValue (Logger mc) env (Data mc) (KeyJSONPath m) True of
             Inl err \<Rightarrow> ([], None)
           | Inr vs \<Rightarrow>
               (case json_Unmarshal_slice env vs of
                  Inr jsonData \<Rightarrow> range_loop (Collect_element env mc m) jsonData
                | Inl err \<Rightarrow> ([], None)))
      | OtherScrape t \<Rightarrow> ([], None))"

text \<open>\<open>Collect\<close> (lines 57-145): the status observation, then the descriptors in order. It is
  \<open>Collect_mc\<close> here, \<open>Collect\<close> being the set comprehension of HOL.\<close>

definition Collect_mc ::
  "('j, 'p, 'f::zero) env \<Rightarrow> 'l JSONMetricCollector \<Rightarrow> 'f Metric list \<times> panic option" where
  "Collect_mc env mc =
     (case MustNewConstMetric env jsonExporterStatusDesc GaugeValue 0 [] of
        Inl p \<Rightarrow> ([], Some p)
      | Inr status \<Rightarrow>
          (case range_loop (Collect_metric env mc) (JSONMetrics mc) of
             (sent, r) \<Rightarrow> (status # sent, r)))"

text \<open>The status observation that \<open>Collect\<close> sends first (lines 60-64).\<close>

definition exporterStatus :: "'f::zero Metric" where
  "exporterStatus =
     \<lparr>desc = jsonExporterStatusDesc, valueType = GaugeValue, metricValue = 0, labelValues = [],
      timestamp = None\<rparr>"

subsection \<open>A concrete instance of the libraries\<close>

text \<open>
  For the worked examples the libraries are instantiated with tables of what they return
  on the documents and paths that the examples use: JSON arrays of numbers, and paths of the
  forms \<open>{[*]}\<close> (every element), \<open>{[i]}\<close> (the element at index \<open>i\<close>; \<open>$\<close> and \<open>@\<close> are
  ignored by the path parser), \<open>{@}\<close> (the input itself) and plain text (printed as it is).
  With JSON output enabled the path library prints the list of matches with
  \<open>json.MarshalIndent\<close> and a final newline. A \<open>float64\<close> is printed with \<open>%v\<close>, so
  \<open>1700000000\<close> is printed \<open>1.7e+09\<close>. An index past the end of an array is an error of
  \<open>Execute\<close>. Nothing outside the tables is used by an example.
\<close>

datatype json = JNull | JBool bool | JNumber real | JString string | JArray "json list"
  | JObject "(string \<times> json) list"

definition example_documents :: "(string \<times> json) list" where
  "example_documents =
     [(''[7,9]'', JArray [JNumber 7, JNumber 9]),
      (''7'', JNumber 7),
      (''9'', JNumber 9),
      (''[[1,10],[2,20]]'',
         JArray [JArray [JNumber 1, JNumber 10], JArray [JNumber 2, JNumber 20]]),
      (''[1,10]'', JArray [JNumber 1, JNumber 10]),
      (''[2,20]'', JArray [JNumber 2, JNumber 20]),
      (''[7,1700000000]'', JArray [JNumber 7, JNumber 1700000000])]"

definition example_slices :: "(string \<times> json list) list" where
  "example_slices =
     [(''[\<newline>    7,\<newline>    9\<newline>]\<newline>'', [JNumber 7, JNumber 9]),
      (''[\<newline>    [\<newline>        1,\<newline>        10\<newline>    ],\<newline>    [\<newline>        2,\<newline>        20\<newline>    ]\<newline>]\<newline>'',
       [JArray [JNumber 1, JNumber 10], JArray [JNumber 2, JNumber 20]])]"

definition example_paths :: "string list" where
  "example_paths = [''{[*]}'', ''{@}'', ''{[0]}'', ''{[1]}'', ''{[5]}'', ''{$[0][1]}'', ''{   $[0][1]}'',
       ''eu'']"

definition example_outputs :: "((string \<times> bool \<times> json) \<times> string) list" where
  "example_outputs =
     [((''{[*]}'', True, JArray [JNumber 7, JNumber 9]),
         ''[\<newline>    7,\<newline>    9\<newline>]\<newline>''),
      ((''{[0]}'', False, JArray [JNumber 7, JNumber 9]), ''7''),
      ((''{[1]}'', False, JArray [JNumber 7, JNumber 9]), ''9''),
      ((''{@}'', False, JNumber 7), ''7''),
      ((''{@}'', False, JNumber 9), ''9''),
      ((''eu'', False, JArray [JNumber 1, JNumber 10]), ''eu''),
      ((''{[*]}'', True,
          JArray [JArray [JNumber 1, JNumber 10], JArray [JNumber 2, JNumber 20]]),
         ''[\<newline>    [\<newline>        1,\<newline>        10\<newline>    ],\<newline>    [\<newline>        2,\<newline>        20\<newline>    ]\<newline>]\<newline>''),
      ((''{$[0][1]}'', False,
          JArray [JArray [JNumber 1, JNumber 10], JArray [JNumber 2, JNumber 20]]), ''10''),
      ((''{   $[0][1]}'', False,
          JArray [JArray [JNumber 1, JNumber 10], JArray [JNumber 2, JNumber 20]]), ''10''),
      ((''{[0]}'', False, JArray [JNumber 1, JNumber 10]), ''1''),
      ((''{[1]}'', False, JArray [JNumber 1, JNumber 10]), ''10''),
      ((''{[0]}'', False, JArray [JNumber 2, JNumber 20]), ''2''),
      ((''{[1]}'', False, JArray [JNumber 2, JNumber 20]), ''20''),
      ((''{[0]}'', False, JArray [JNumber 7, JNumber 1700000000]), ''7''),
      ((''{[1]}'', False, JArray [JNumber 7, JNumber 1700000000]), ''1.7e+09'')]"

definition example_numbers :: "(string \<times> real) list" where
  "example_numbers =
     [(''0'', 0), (''1'', 1), (''7'', 7), (''9'', 9), (''10'', 10), (''20'', 20)]"

definition of_table :: "('a \<times> 'b) list \<Rightarrow> string \<Rightarrow> 'a \<Rightarrow> go_error + 'b" where
  "of_table t msg x = (case map_of t x of Some y \<Rightarrow> Inr y | None \<Rightarrow> Inl (GoError msg))"

definition example_Marshal :: "json \<Rightarrow> go_error + string" where
  "example_Marshal j =
     (case filter (\<lambda>(s, j'). j' = j) example_documents of
        (s, j') # rest \<Rightarrow> Inr s
      | [] \<Rightarrow> Inl (GoError ''json: unsupported value''))"

text \<open>\<open>UnquoteExtend\<close> on a string without escapes: the text between two equal quotes.\<close>

definition example_UnquoteExtend :: "string \<Rightarrow> go_error + string" where
  "example_UnquoteExtend s =
     (if 2 \<le> length s \<and> hd s = last s \<and> (hd s = CHR 0x22 \<or> hd s = CHR 0x27)
      then Inr (butlast (tl s)) else Inl (GoError ''invalid syntax''))"

text \<open>\<open>strings.ToLower\<close> on ASCII text.\<close>

definition example_ToLower :: "string \<Rightarrow> string" where
  "example_ToLower s =
     map (\<lambda>c. case map_of (zip ''ABCDEFGHIJKLMNOPQRSTUVWXYZ'' ''abcdefghijklmnopqrstuvwxyz'') c of
                 Some l \<Rightarrow> l | None \<Rightarrow> c) s"

definition example_env :: "(json, string, real) env" where
  "example_env =
     \<lparr>json_Unmarshal = of_table example_documents ''invalid character'',
      json_Unmarshal_slice = of_table example_slices ''cannot unmarshal'',
      json_Marshal = example_Marshal,
      jsonpath_Parse =
        (\<lambda>p. if p \<in> set example_paths then Inr p else Inl (GoError ''unrecognized character'')),
      jsonpath_Execute = (\<lambda>p b j. of_table example_outputs ''array index out of bounds'' (p, b, j)),
      jsonpath_UnquoteExtend = example_UnquoteExtend,
      strings_ToLower = example_ToLower,
      SanitizeValue = of_table example_numbers ''invalid syntax'',
      NewConstMetric_err =
        (\<lambda>d ls. if length ls = length (variableLabels d) then None
                 else Some (GoError ''inconsistent label cardinality''))\<rparr>"

text \<open>Descriptors of the examples.\<close>

definition example_Desc :: "string \<Rightarrow> string list \<Rightarrow> prometheus_Desc" where
  "example_Desc name labelNames =
     \<lparr>fqName = name, helpText = ''example'', variableLabels = labelNames, constLabels = []\<rparr>"

definition stateMetric :: JSONMetric where
  "stateMetric =
     \<lparr>Desc = example_Desc ''state'' [], Type = ObjectScrape, KeyJSONPath = ''{.items[*]}'',
      ValueJSONPath = ''{.state}'', LabelsJSONPaths = [], ValueType = GaugeValue,
      ValueConverter = Some [''{.state}'' \<mapsto> [''up'' \<mapsto> ''1'', ''down'' \<mapsto> ''0'']],
      EpochTimestampJSONPath = []\<rparr>"

definition firstMetric :: JSONMetric where
  "firstMetric =
     \<lparr>Desc = example_Desc ''first'' [''second''], Type = ValueScrape, KeyJSONPath = ''{[0]}'',
      ValueJSONPath = [], LabelsJSONPaths = [''{[1]}''], ValueType = GaugeValue,
      ValueConverter = None, EpochTimestampJSONPath = []\<rparr>"

definition timedMetric :: JSONMetric where
  "timedMetric =
     \<lparr>Desc = example_Desc ''timed'' [], Type = ValueScrape, KeyJSONPath = ''{[0]}'',
      ValueJSONPath = [], LabelsJSONPaths = [], ValueType = GaugeValue,
      ValueConverter = None, EpochTimestampJSONPath = ''{[1]}''\<rparr>"

definition missingMetric :: JSONMetric where
  "missingMetric =
     \<lparr>Desc = example_Desc ''missing'' [], Type = ValueScrape, KeyJSONPath = ''{[5]}'',
      ValueJSONPath = [], LabelsJSONPaths = [], ValueType = CounterValue,
      ValueConverter = None, EpochTimestampJSONPath = []\<rparr>"

definition selfMetric :: JSONMetric where
  "selfMetric =
     \<lparr>Desc = example_Desc ''element'' [''self''], Type = ObjectScrape, KeyJSONPath = ''{[*]}'',
      ValueJSONPath = ''{@}'', LabelsJSONPaths = [''{@}''], ValueType = GaugeValue,
      ValueConverter = None, EpochTimestampJSONPath = []\<rparr>"

definition regionMetric :: JSONMetric where
  "regionMetric =
     \<lparr>Desc = example_Desc ''pair'' [''region''], Type = ObjectScrape, KeyJSONPath = ''{[*]}'',
      ValueJSONPath = ''{[1]}'', LabelsJSONPaths = [''eu''], ValueType = GaugeValue,
      ValueConverter = None, EpochTimestampJSONPath = []\<rparr>"

definition pairMetric :: JSONMetric where
  "pairMetric =
     \<lparr>Desc = example_Desc ''pair'' [''top'', ''id'', ''none''], Type = ObjectScrape,
      KeyJSONPath = ''{[*]}'', ValueJSONPath = ''{[1]}'',
      LabelsJSONPaths = [''{$[0][1]}'', ''{[0]}'', ''{[5]}''], ValueType = GaugeValue,
      ValueConverter = None, EpochTimestampJSONPath = []\<rparr>"

definition otherMetric :: JSONMetric where
  "otherMetric =
     \<lparr>Desc = example_Desc ''other'' [], Type = OtherScrape ''table'', KeyJSONPath = ''{[0]}'',
      ValueJSONPath = [], LabelsJSONPaths = [], ValueType = UntypedValue,
      ValueConverter = None, EpochTimestampJSONPath = []\<rparr>"

lemmas example_simps =
  example_env_def of_table_def example_documents_def example_slices_def example_paths_def
  example_outputs_def example_numbers_def example_UnquoteExtend_def example_ToLower_def
  example_Marshal_def example_Desc_def

lemmas Collect_simps =
  Collect_mc_def Collect_metric_def Collect_element_def MustNewConstMetric_def extractValue_def
  extractLabels_def extractLabelsWithParentNode_def selectRightJsonData_def
  convertValueIfNeeded_def jsonExporterStatusDesc_def exporterStatus_def

section \<open>Properties\<close>

subsection \<open>Label resolution\<close>

lemma strings_Contains_single: "strings_Contains s [c] = (c \<in> set s)"
  by (induction s) auto

lemma selectRightJsonData_short:
  "length (noSpace path) < 4 \<Longrightarrow>
   selectRightJsonData rootData childData path =
     Inl (Panic ''runtime error: slice bounds out of range'')"
  by (simp add: selectRightJsonData_def)

lemma selectRightJsonData_long:
  "4 \<le> length (noSpace path) \<Longrightarrow>
   selectRightJsonData rootData childData path =
     Inr (if CHR ''$'' \<in> set (take 4 (noSpace path)) then rootData else childData)"
  by (simp add: selectRightJsonData_def strings_Contains_single)

text \<open>The loop of \<open>extractLabels\<close> rewrites the entries \<open>i, ..., i + len(paths) - 1\<close> of
  \<open>labels\<close> and nothing else.\<close>

lemma extractLabels_loop_eq:
  "i + length paths \<le> length labels \<Longrightarrow>
   extractLabels_loop logger env data i paths labels =
     take i labels @
     map (\<lambda>(path, old). case extractValue logger env data path False of
                           Inr result \<Rightarrow> result | Inl err \<Rightarrow> old)
         (zip paths (drop i labels)) @
     drop (i + length paths) labels"
proof (induction paths arbitrary: i labels)
  case Nil
  then show ?case by simp
next
  case (Cons path paths)
  then have i: "i < length labels" by simp
  show ?case
  proof (cases "extractValue logger env data path False")
    case (Inl err)
    with Cons i show ?thesis
      by (simp add: take_Suc_conv_app_nth Cons_nth_drop_Suc [symmetric])
  next
    case (Inr result)
    with Cons i show ?thesis
      by (simp add: take_Suc_conv_app_nth Cons_nth_drop_Suc [symmetric] nth_list_update)
  qed
qed

lemma zip_replicate_empty:
  "zip paths (replicate (length paths) ([]::string)) = map (\<lambda>p. (p, [])) paths"
  by (induction paths) auto

lemma extractLabels_map:
  "extractLabels logger env data paths =
     map (\<lambda>path. case extractValue logger env data path False of
                    Inr result \<Rightarrow> result | Inl err \<Rightarrow> []) paths"
  by (simp add: extractLabels_def extractLabels_loop_eq zip_replicate_empty o_def)

lemma length_extractLabels: "length (extractLabels logger env data paths) = length paths"
  by (simp add: extractLabels_map)

lemma extractLabelsWithParentNode_loop_eq:
  "i + length paths \<le> length labels \<Longrightarrow>
   \<forall>path\<in>set paths. 4 \<le> length (noSpace path) \<Longrightarrow>
   extractLabelsWithParentNode_loop logger env childData rootData i paths labels =
     Inr (take i labels @
          map (\<lambda>(path, old).
                 case extractValue logger env
                        (if CHR ''$'' \<in> set (take 4 (noSpace path)) then rootData else childData)
                        path False of
                   Inr result \<Rightarrow> result | Inl err \<Rightarrow> old)
              (zip paths (drop i labels)) @
          drop (i + length paths) labels)"
proof (induction paths arbitrary: i labels)
  case Nil
  then show ?case by simp
next
  case (Cons path paths)
  then have i: "i < length labels" by simp
  let ?sel = "if CHR ''$'' \<in> set (take 4 (noSpace path)) then rootData else childData"
  from Cons.prems have sel: "selectRightJsonData rootData childData path = Inr ?sel"
    by (simp add: selectRightJsonData_long)
  show ?case
  proof (cases "extractValue logger env ?sel path False")
    case (Inl err)
    with Cons i sel show ?thesis
      by (simp add: take_Suc_conv_app_nth Cons_nth_drop_Suc [symmetric])
  next
    case (Inr result)
    with Cons i sel show ?thesis
      by (simp add: take_Suc_conv_app_nth Cons_nth_drop_Suc [symmetric] nth_list_update)
  qed
qed

lemma extractLabelsWithParentNode_map:
  "\<forall>path\<in>set paths. 4 \<le> length (noSpace path) \<Longrightarrow>
   extractLabelsWithParentNode logger env childData rootData paths =
     Inr (map (\<lambda>path.
                 case extractValue logger env
                        (if CHR ''$'' \<in> set (take 4 (noSpace path)) then rootData else childData)
                        path False of
                   Inr result \<Rightarrow> result | Inl err \<Rightarrow> []) paths)"
  by (simp add: extractLabelsWithParentNode_def extractLabelsWithParentNode_loop_eq
      zip_replicate_empty o_def)

lemma extractLabelsWithParentNode_loop_length:
  "extractLabelsWithParentNode_loop logger env childData rootData i paths labels = Inr ls \<Longrightarrow>
   length ls = length labels"
  by (induction paths arbitrary: i labels) (auto split: sum.splits)

text \<open>When \<open>extractLabelsWithParentNode\<close> returns, it returns one label for each path.\<close>

lemma length_extractLabelsWithParentNode:
  "extractLabelsWithParentNode logger env childData rootData paths = Inr ls \<Longrightarrow>
   length ls = length paths"
  by (auto simp: extractLabelsWithParentNode_def dest: extractLabelsWithParentNode_loop_length)

lemma extractLabelsWithParentNode_loop_panic:
  "extractLabelsWithParentNode_loop logger env childData rootData i paths labels = Inl p \<Longrightarrow>
   \<exists>path\<in>set paths. length (noSpace path) < 4"
proof (induction paths arbitrary: i labels)
  case Nil
  then show ?case by simp
next
  case (Cons path paths)
  then show ?case
    by (cases "selectRightJsonData rootData childData path")
       (auto simp: selectRightJsonData_def Let_def split: if_splits)
qed

text \<open>It panics only on a path that is shorter than four bytes once its spaces are gone.\<close>

lemma extractLabelsWithParentNode_panic:
  "extractLabelsWithParentNode logger env childData rootData paths = Inl p \<Longrightarrow>
   \<exists>path\<in>set paths. length (noSpace path) < 4"
  by (auto simp: extractLabelsWithParentNode_def dest: extractLabelsWithParentNode_loop_panic)

subsection \<open>The value converter\<close>

lemma convertValueIfNeeded_no_table:
  "ValueConverter m = None \<or>
   (\<exists>converter. ValueConverter m = Some converter \<and> converter (ValueJSONPath m) = None) \<Longrightarrow>
   convertValueIfNeeded env m v = v"
  by (auto simp: convertValueIfNeeded_def)

lemma convertValueIfNeeded_table:
  "ValueConverter m = Some converter \<Longrightarrow> converter (ValueJSONPath m) = Some valueMappings \<Longrightarrow>
   convertValueIfNeeded env m v =
     (case valueMappings (strings_ToLower env v) of
        Some mapped \<Rightarrow> mapped
      | None \<Rightarrow> strings_ToLower env v)"
  by (simp add: convertValueIfNeeded_def Let_def)

subsection \<open>Loops\<close>

lemma range_loop_no_panic:
  "\<forall>x\<in>set xs. snd (body x) = None \<Longrightarrow>
   range_loop body xs = (concat (map (\<lambda>x. fst (body x)) xs), None)"
  by (induction xs) (auto split: prod.splits option.splits)

lemma range_loop_sent:
  "y \<in> set (fst (range_loop body xs)) \<Longrightarrow> \<exists>x\<in>set xs. y \<in> set (fst (body x))"
  by (induction xs) (auto split: prod.splits option.splits)

lemma range_loop_map: "range_loop body (map g xs) = range_loop (\<lambda>x. body (g x)) xs"
  by (induction xs) auto

lemma Collect_element_sent:
  "y \<in> set (fst (Collect_element env mc m data)) \<Longrightarrow> desc y = Desc m \<and> timestamp y = None"
  by (auto simp: Collect_element_def MustNewConstMetric_def
      split: sum.splits option.splits go_error.splits)

lemma Collect_metric_sent:
  "y \<in> set (fst (Collect_metric env mc m)) \<Longrightarrow> desc y = Desc m \<and> timestamp y = None"
  by (auto simp: Collect_metric_def MustNewConstMetric_def
      split: sum.splits option.splits go_error.splits ScrapeType.splits
      dest: range_loop_sent Collect_element_sent)

lemma Collect_mc_accepted:
  "NewConstMetric_err env jsonExporterStatusDesc [] = None \<Longrightarrow>
   Collect_mc env mc =
     (exporterStatus # fst (range_loop (Collect_metric env mc) (JSONMetrics mc)),
      snd (range_loop (Collect_metric env mc) (JSONMetrics mc)))"
  by (simp add: Collect_mc_def MustNewConstMetric_def exporterStatus_def split: prod.splits)

lemma convertValueIfNeeded_epoch:
  "convertValueIfNeeded env (m\<lparr>EpochTimestampJSONPath := t\<rparr>) = convertValueIfNeeded env m"
  by (simp add: convertValueIfNeeded_def fun_eq_iff cong: option.case_cong)

lemma Collect_element_epoch:
  "Collect_element env (mc\<lparr>JSONMetrics := ms\<rparr>) (m\<lparr>EpochTimestampJSONPath := t\<rparr>) =
   Collect_element env mc m"
  by (simp add: Collect_element_def convertValueIfNeeded_epoch fun_eq_iff cong: sum.case_cong)

lemma Collect_metric_epoch:
  "Collect_metric env (mc\<lparr>JSONMetrics := ms\<rparr>) (m\<lparr>EpochTimestampJSONPath := t\<rparr>) =
   Collect_metric env mc m"
  by (simp add: Collect_metric_def Collect_element_epoch
      cong: sum.case_cong ScrapeType.case_cong)

lemma map_timestamp_None:
  "\<forall>y\<in>set ys. timestamp y = None \<Longrightarrow> map timestamp ys = replicate (length ys) None"
  by (induction ys) auto

subsection \<open>One array element, one descriptor\<close>

text \<open>What the inner loop sends for an element, and what an ObjectScrape descriptor sends
  when no element panics: the observations of its elements, in the order of the array.\<close>

lemma Collect_element_observation:
  assumes "json_Marshal env data = Inr jdata"
    and "extractValue (Logger mc) env jdata (ValueJSONPath m) False = Inr v"
    and "SanitizeValue env (convertValueIfNeeded env m v) = Inr floatValue"
    and "extractLabelsWithParentNode (Logger mc) env jdata (Data mc) (LabelsJSONPaths m) =
           Inr labels"
    and "NewConstMetric_err env (Desc m) labels = None"
  shows "Collect_element env mc m data =
     ([\<lparr>desc = Desc m, valueType = ValueType m, metricValue = floatValue,
        labelValues = labels, timestamp = None\<rparr>], None)"
  using assms by (simp add: Collect_element_def MustNewConstMetric_def)

lemma Collect_element_skipped:
  assumes "json_Marshal env data = Inr jdata"
    and "extractValue (Logger mc) env jdata (ValueJSONPath m) False = Inl err"
  shows "Collect_element env mc m data = ([], None)"
  using assms by (simp add: Collect_element_def)

lemma ObjectScrape_observations:
  assumes "Type m = ObjectScrape"
    and "extractValue (Logger mc) env (Data mc) (KeyJSONPath m) True = Inr vs"
    and "json_Unmarshal_slice env vs = Inr jsonData"
    and "\<forall>data\<in>set jsonData. snd (Collect_element env mc m data) = None"
  shows "Collect_metric env mc m =
     (concat (map (\<lambda>data. fst (Collect_element env mc m data)) jsonData), None)"
  using assms by (simp add: Collect_metric_def range_loop_no_panic)

lemma length_concat_singletons:
  "\<forall>x\<in>set xs. length (f x) = 1 \<Longrightarrow> length (concat (map f xs)) = length xs"
  by (induction xs) auto

lemma ObjectScrape_all_elements:
  assumes "Type m = ObjectScrape"
    and "extractValue (Logger mc) env (Data mc) (KeyJSONPath m) True = Inr vs"
    and "json_Unmarshal_slice env vs = Inr jsonData"
    and "\<forall>data\<in>set jsonData. \<exists>y. Collect_element env mc m data = ([y], None)"
  shows "length (fst (Collect_metric env mc m)) = length jsonData"
proof -
  from assms(4) have "\<forall>data\<in>set jsonData. snd (Collect_element env mc m data) = None"
    by fastforce
  with assms have "fst (Collect_metric env mc m) =
      concat (map (\<lambda>data. fst (Collect_element env mc m data)) jsonData)"
    by (simp add: ObjectScrape_observations)
  moreover from assms(4)
  have "\<forall>data\<in>set jsonData. length (fst (Collect_element env mc m data)) = 1"
    by fastforce
  ultimately show ?thesis
    by (simp add: length_concat_singletons)
qed

lemma ObjectScrape_one_skipped:
  assumes "Type m = ObjectScrape"
    and "extractValue (Logger mc) env (Data mc) (KeyJSONPath m) True = Inr vs"
    and "json_Unmarshal_slice env vs = Inr (before @ failing # after)"
    and "Collect_element env mc m failing = ([], None)"
    and "\<forall>data\<in>set (before @ after). \<exists>y. Collect_element env mc m data = ([y], None)"
  shows "fst (Collect_metric env mc m) =
           concat (map (\<lambda>data. fst (Collect_element env mc m data)) (before @ after)) \<and>
         length (fst (Collect_metric env mc m)) = length (before @ failing # after) - 1"
proof -
  from assms(4,5)
  have "\<forall>data\<in>set (before @ failing # after). snd (Collect_element env mc m data) = None"
    by (auto simp: Ball_def)
  with assms(1-3) have "fst (Collect_metric env mc m) =
      concat (map (\<lambda>data. fst (Collect_element env mc m data)) (before @ failing # after))"
    by (simp add: ObjectScrape_observations)
  with assms(4) have eq: "fst (Collect_metric env mc m) =
      concat (map (\<lambda>data. fst (Collect_element env mc m data)) (before @ after))"
    by simp
  from assms(5)
  have "\<forall>data\<in>set (before @ after). length (fst (Collect_element env mc m data)) = 1"
    by fastforce
  then have "length (concat (map (\<lambda>data. fst (Collect_element env mc m data)) (before @ after)))
      = length (before @ after)"
    by (rule length_concat_singletons)
  with eq show ?thesis by simp
qed

subsection \<open>Whole runs\<close>

text \<open>A run in which no descriptor panics sends the status observation and then the
  observations of the descriptors, in the configured order.\<close>

lemma Collect_mc_no_panic:
  assumes "NewConstMetric_err env jsonExporterStatusDesc [] = None"
    and "\<forall>m\<in>set (JSONMetrics mc). snd (Collect_metric env mc m) = None"
  shows "Collect_mc env mc =
     (exporterStatus # concat (map (\<lambda>m. fst (Collect_metric env mc m)) (JSONMetrics mc)), None)"
  using assms by (simp add: Collect_mc_accepted range_loop_no_panic)

text \<open>A run on the document \<open>[[1,10],[2,20]]\<close>: the first descriptor finds nothing; the second
  visits both elements, takes the value at index 1, one label from the root document and
  one from the element, and leaves the label of the failing path empty.\<close>

lemma Collect_mc_example_run:
  "Collect_mc example_env
     \<lparr>JSONMetrics = [missingMetric, pairMetric], Data = ''[[1,10],[2,20]]'', Logger = ()\<rparr> =
     ([exporterStatus,
       \<lparr>desc = example_Desc ''pair'' [''top'', ''id'', ''none''], valueType = GaugeValue,
        metricValue = 10, labelValues = [''10'', ''1'', []], timestamp = None\<rparr>,
       \<lparr>desc = example_Desc ''pair'' [''top'', ''id'', ''none''], valueType = GaugeValue,
        metricValue = 20, labelValues = [''10'', ''2'', []], timestamp = None\<rparr>], None)"
  by (simp add: Collect_simps example_simps missingMetric_def pairMetric_def)

text \<open>A hit in the table of the value converter: the lookup ignores case.\<close>

lemma convertValueIfNeeded_example_hit:
  "convertValueIfNeeded example_env stateMetric ''UP'' = ''1''"
  by (simp add: convertValueIfNeeded_def stateMetric_def example_simps)

subsection \<open>A ValueScrape descriptor\<close>

text \<open>The body of the descriptor loop sends at most one observation for a ValueScrape
  descriptor, and exactly one when the key path matches a text that \<open>SanitizeValue\<close> accepts
  and the metrics library accepts the labels.\<close>

lemma ValueScrape_one_observation:
  assumes "Type m = ValueScrape"
  shows "length (fst (Collect_metric env mc m)) \<le> 1 \<and>
         (\<forall>s v. extractValue (Logger mc) env (Data mc) (KeyJSONPath m) False = Inr s \<and>
                 SanitizeValue env s = Inr v \<and>
                 NewConstMetric_err env (Desc m)
                   (map (\<lambda>path. case extractValue (Logger mc) env (Data mc) path False of
                                   Inr result \<Rightarrow> result | Inl err \<Rightarrow> [])
                        (LabelsJSONPaths m)) = None \<longrightarrow>
                 Collect_metric env mc m =
                   ([\<lparr>desc = Desc m, valueType = ValueType m, metricValue = v,
                      labelValues =
                        map (\<lambda>path. case extractValue (Logger mc) env (Data mc) path False of
                                        Inr result \<Rightarrow> result | Inl err \<Rightarrow> [])
                            (LabelsJSONPaths m),
                      timestamp = None\<rparr>], None))"
  using assms
  by (auto simp: Collect_metric_def MustNewConstMetric_def extractLabels_map
      split: sum.splits option.splits go_error.splits)

lemma ValueScrape_one_observation_example:
  "Type firstMetric = ValueScrape \<and>
   extractValue () example_env ''[7,9]'' (KeyJSONPath firstMetric) False = Inr ''7'' \<and>
   SanitizeValue example_env ''7'' = Inr 7 \<and>
   NewConstMetric_err example_env (Desc firstMetric) [''9''] = None \<and>
   Collect_metric example_env \<lparr>JSONMetrics = [firstMetric], Data = ''[7,9]'', Logger = ()\<rparr>
     firstMetric =
     ([\<lparr>desc = example_Desc ''first'' [''second''], valueType = GaugeValue, metricValue = 7,
        labelValues = [''9''], timestamp = None\<rparr>], None)"
  using ValueScrape_one_observation
    [of firstMetric example_env
      "\<lparr>JSONMetrics = [firstMetric], Data = ''[7,9]'', Logger = ()\<rparr>"]
  by (simp add: extractValue_def example_simps firstMetric_def)

lemma range_loop_append:
  "\<forall>x\<in>set xs. snd (body x) = None \<Longrightarrow>
   range_loop body (xs @ ys) =
     (concat (map (\<lambda>x. fst (body x)) xs) @ fst (range_loop body ys), snd (range_loop body ys))"
  by (induction xs) (auto split: prod.splits option.splits)

text \<open>In a run, when no descriptor before it panics, the observation of such a descriptor
  follows those of the descriptors before it.\<close>

lemma ValueScrape_run:
  assumes "NewConstMetric_err env jsonExporterStatusDesc [] = None"
    and "JSONMetrics mc = before @ m # after"
    and "\<forall>d\<in>set before. snd (Collect_metric env mc d) = None"
    and "Type m = ValueScrape"
    and "extractValue (Logger mc) env (Data mc) (KeyJSONPath m) False = Inr s"
    and "SanitizeValue env s = Inr v"
    and "NewConstMetric_err env (Desc m)
           (extractLabels (Logger mc) env (Data mc) (LabelsJSONPaths m)) = None"
  shows "fst (Collect_mc env mc) =
     exporterStatus # concat (map (\<lambda>d. fst (Collect_metric env mc d)) before) @
     \<lparr>desc = Desc m, valueType = ValueType m, metricValue = v,
      labelValues = extractLabels (Logger mc) env (Data mc) (LabelsJSONPaths m),
      timestamp = None\<rparr> # fst (range_loop (Collect_metric env mc) after)"
proof -
  have m: "Collect_metric env mc m =
      ([\<lparr>desc = Desc m, valueType = ValueType m, metricValue = v,
         labelValues = extractLabels (Logger mc) env (Data mc) (LabelsJSONPaths m),
         timestamp = None\<rparr>], None)"
    using assms(4-7) by (simp add: Collect_metric_def MustNewConstMetric_def)
  from assms(3) have "range_loop (Collect_metric env mc) (before @ m # after) =
      (concat (map (\<lambda>d. fst (Collect_metric env mc d)) before) @
         fst (range_loop (Collect_metric env mc) (m # after)),
       snd (range_loop (Collect_metric env mc) (m # after)))"
    by (rule range_loop_append)
  with m assms(1,2) show ?thesis
    by (simp add: Collect_mc_accepted split: prod.splits)
qed

section \<open>The claims\<close>

text \<open>
  C1 (convert never alters a value that has no table entry). The code lowercases the value
  before the lookup and returns the lowercased value on a miss: with a table that maps
  \<open>up\<close> to \<open>1\<close> and \<open>down\<close> to \<open>0\<close> for the value path \<open>{.state}\<close>, the raw value \<open>Unknown\<close>
  has no entry and comes back as \<open>unknown\<close>, not unchanged.
\<close>

theorem convertValueIfNeeded_miss_lowercased:
  "[''up'' \<mapsto> ''1'', ''down'' \<mapsto> ''0''] (strings_ToLower example_env ''Unknown'') = None \<and>
   convertValueIfNeeded example_env stateMetric ''Unknown'' = ''unknown''"
  by (simp add: convertValueIfNeeded_def stateMetric_def example_simps)

text \<open>
  C2 (the scope of a label path: root when the path without its spaces begins with the root
  anchor, the array element otherwise). The code looks for \<open>$\<close> anywhere in the first four
  bytes of the path without its spaces: \<open>{.a$b}\<close> begins neither with \<open>$\<close> nor with \<open>{$\<close> and is
  still evaluated against the root document.
\<close>

theorem selectRightJsonData_not_prefix:
  "selectRightJsonData ''[[1,10],[2,20]]'' ''[1,10]'' ''{.a$b}'' = Inr ''[[1,10],[2,20]]'' \<and>
   \<not> prefix ''$'' (noSpace ''{.a$b}'') \<and> \<not> prefix ''{$'' (noSpace ''{.a$b}'')"
  by (simp add: selectRightJsonData_def)

text \<open>
  C2, as the code has it: when every label path has at least four bytes once its spaces are
  removed, each path is evaluated against the root document if \<open>$\<close> occurs among the first
  four of those bytes and against the array element otherwise, and label resolution returns
  the results of these evaluations, the empty string where one fails.
\<close>

theorem label_scope_first_four_bytes:
  assumes "\<forall>path\<in>set paths. 4 \<le> length (noSpace path)"
  shows "(\<forall>path\<in>set paths.
            selectRightJsonData rootData childData path =
              Inr (if CHR ''$'' \<in> set (take 4 (noSpace path)) then rootData else childData)) \<and>
         extractLabelsWithParentNode logger env childData rootData paths =
           Inr (map (\<lambda>path.
                       case extractValue logger env
                              (if CHR ''$'' \<in> set (take 4 (noSpace path))
                               then rootData else childData) path False of
                         Inr result \<Rightarrow> result | Inl err \<Rightarrow> []) paths)"
  using assms by (simp add: selectRightJsonData_long extractLabelsWithParentNode_map)

theorem label_scope_first_four_bytes_witness:
  "(4 \<le> length (noSpace ''{   $[0][1]}'') \<and> 4 \<le> length (noSpace ''{[0]}'') \<and>
    4 \<le> length (noSpace ''{[5]}'')) \<and>
   selectRightJsonData ''[[1,10],[2,20]]'' ''[1,10]'' ''{   $[0][1]}'' = Inr ''[[1,10],[2,20]]'' \<and>
   selectRightJsonData ''[[1,10],[2,20]]'' ''[1,10]'' ''{[0]}'' = Inr ''[1,10]'' \<and>
   extractLabelsWithParentNode () example_env ''[1,10]'' ''[[1,10],[2,20]]''
     [''{   $[0][1]}'', ''{[0]}'', ''{[5]}''] = Inr [''10'', ''1'', []]"
  using label_scope_first_four_bytes
    [of "[''{   $[0][1]}'', ''{[0]}'', ''{[5]}'']" "''[[1,10],[2,20]]''" "''[1,10]''" "()"
      example_env]
  by (simp add: extractValue_def example_simps)

text \<open>
  C3 (a collection run never panics). \<open>selectRightJsonData\<close> slices the first four bytes of
  the path without checking its length, so an ObjectScrape descriptor with the label path
  \<open>{@}\<close> (the array element itself) panics on the first element whose value is extracted:
  on the document \<open>[7,9]\<close> the run sends the status observation and panics.
\<close>

theorem Collect_mc_short_label_path_panics:
  "Collect_mc example_env \<lparr>JSONMetrics = [selfMetric], Data = ''[7,9]'', Logger = ()\<rparr> =
     ([exporterStatus], Some (Panic ''runtime error: slice bounds out of range''))"
  by (simp add: Collect_simps example_simps selfMetric_def)

text \<open>
  C4 (an observation carries the timestamp found at the descriptor's epoch timestamp path).
  \<open>Collect\<close> never reads \<open>EpochTimestampJSONPath\<close>: a descriptor whose path \<open>{[1]}\<close> finds
  \<open>1.7e+09\<close> in the document yields an observation without a timestamp.
\<close>

theorem epoch_timestamp_path_unused_example:
  "EpochTimestampJSONPath timedMetric = ''{[1]}'' \<and>
   extractValue () example_env ''[7,1700000000]'' ''{[1]}'' False = Inr ''1.7e+09'' \<and>
   Collect_mc example_env
     \<lparr>JSONMetrics = [timedMetric], Data = ''[7,1700000000]'', Logger = ()\<rparr> =
     ([exporterStatus,
       \<lparr>desc = example_Desc ''timed'' [], valueType = GaugeValue, metricValue = 7,
        labelValues = [], timestamp = None\<rparr>], None)"
  by (simp add: Collect_simps example_simps timedMetric_def)

text \<open>
  C4, as the code has it: no observation of a run carries a timestamp of its own, and the run
  is the same whatever the epoch timestamp paths of its descriptors are.
\<close>

theorem observations_without_timestamp:
  "map timestamp (fst (Collect_mc env mc)) = replicate (length (fst (Collect_mc env mc))) None \<and>
   Collect_mc env
     (mc\<lparr>JSONMetrics := map (\<lambda>m. m\<lparr>EpochTimestampJSONPath := t m\<rparr>) (JSONMetrics mc)\<rparr>) =
     Collect_mc env mc"
proof
  have "\<forall>y\<in>set (fst (range_loop (Collect_metric env mc) (JSONMetrics mc))). timestamp y = None"
    using range_loop_sent Collect_metric_sent by fast
  then have "\<forall>y\<in>set (fst (Collect_mc env mc)). timestamp y = None"
    by (auto simp: Collect_mc_def MustNewConstMetric_def
        split: sum.splits option.splits go_error.splits prod.splits)
  then show "map timestamp (fst (Collect_mc env mc)) =
      replicate (length (fst (Collect_mc env mc))) None"
    by (rule map_timestamp_None)
next
  show "Collect_mc env
     (mc\<lparr>JSONMetrics := map (\<lambda>m. m\<lparr>EpochTimestampJSONPath := t m\<rparr>) (JSONMetrics mc)\<rparr>) =
     Collect_mc env mc"
    by (simp add: Collect_mc_def range_loop_map Collect_metric_epoch cong: sum.case_cong)
qed

text \<open>
  C5 (an ObjectScrape descriptor over an array of \<open>N\<close> elements whose values all match and
  normalize yields \<open>N\<close> observations). On the document \<open>[[1,10],[2,20]]\<close> the key path finds
  two elements and the value path \<open>{[1]}\<close> finds \<open>10\<close> and \<open>20\<close>, which normalize; the label
  path \<open>eu\<close> (a constant text) is shorter than four bytes, so the descriptor panics on the
  first element and sends nothing. Without such a panic the count is right
  (\<open>ObjectScrape_all_elements\<close>, \<open>ObjectScrape_one_skipped\<close>).
\<close>

theorem ObjectScrape_short_label_path_no_observations:
  "Type regionMetric = ObjectScrape \<and>
   extractValue () example_env ''[[1,10],[2,20]]'' (KeyJSONPath regionMetric) True =
     Inr ''[\<newline>    [\<newline>        1,\<newline>        10\<newline>    ],\<newline>    [\<newline>        2,\<newline>        20\<newline>    ]\<newline>]\<newline>'' \<and>
   json_Unmarshal_slice example_env
     ''[\<newline>    [\<newline>        1,\<newline>        10\<newline>    ],\<newline>    [\<newline>        2,\<newline>        20\<newline>    ]\<newline>]\<newline>'' =
     Inr [JArray [JNumber 1, JNumber 10], JArray [JNumber 2, JNumber 20]] \<and>
   extractValue () example_env ''[1,10]'' (ValueJSONPath regionMetric) False = Inr ''10'' \<and>
   SanitizeValue example_env ''10'' = Inr 10 \<and>
   extractValue () example_env ''[2,20]'' (ValueJSONPath regionMetric) False = Inr ''20'' \<and>
   SanitizeValue example_env ''20'' = Inr 20 \<and>
   Collect_metric example_env
     \<lparr>JSONMetrics = [regionMetric], Data = ''[[1,10],[2,20]]'', Logger = ()\<rparr> regionMetric =
     ([], Some (Panic ''runtime error: slice bounds out of range''))"
  by (simp add: Collect_simps example_simps regionMetric_def)

text \<open>
  C6: whatever the descriptors and the document, and whether the descriptors succeed, fail or
  panic, a run sends the status observation first; every later observation is one of a
  configured descriptor, so the status descriptor is observed exactly once (the collector's
  \<open>Desc\<close> pointers are distinct from the package's status descriptor). The assumption says
  that the metrics library accepts the status descriptor with no label values.
\<close>

theorem status_observation_first_once:
  assumes "NewConstMetric_err env jsonExporterStatusDesc [] = None"
  shows "fst (Collect_mc env mc) \<noteq> [] \<and>
         hd (fst (Collect_mc env mc)) = exporterStatus \<and>
         (\<forall>y\<in>set (tl (fst (Collect_mc env mc))). \<exists>m\<in>set (JSONMetrics mc). desc y = Desc m) \<and>
         (jsonExporterStatusDesc \<notin> Desc ` set (JSONMetrics mc) \<longrightarrow>
            length (filter (\<lambda>y. desc y = jsonExporterStatusDesc) (fst (Collect_mc env mc))) = 1)"
proof -
  let ?rest = "fst (range_loop (Collect_metric env mc) (JSONMetrics mc))"
  have run: "fst (Collect_mc env mc) = exporterStatus # ?rest"
    using assms by (simp add: Collect_mc_accepted)
  have rest: "\<forall>y\<in>set ?rest. \<exists>m\<in>set (JSONMetrics mc). desc y = Desc m"
    using range_loop_sent Collect_metric_sent by fast
  have "filter (\<lambda>y. desc y = jsonExporterStatusDesc) ?rest = []"
    if "jsonExporterStatusDesc \<notin> Desc ` set (JSONMetrics mc)"
    using that rest by (force simp: filter_empty_conv)
  with run rest show ?thesis
    by (simp add: exporterStatus_def)
qed

theorem status_observation_first_once_witness:
  "NewConstMetric_err example_env jsonExporterStatusDesc [] = None \<and>
   hd (fst (Collect_mc example_env
     \<lparr>JSONMetrics = [missingMetric, firstMetric, otherMetric, selfMetric, firstMetric],
      Data = ''[7,9]'', Logger = ()\<rparr>)) = exporterStatus \<and>
   length (filter (\<lambda>y. desc y = jsonExporterStatusDesc)
     (fst (Collect_mc example_env
       \<lparr>JSONMetrics = [missingMetric, firstMetric, otherMetric, selfMetric, firstMetric],
        Data = ''[7,9]'', Logger = ()\<rparr>))) = 1 \<and>
   length (fst (Collect_mc example_env
       \<lparr>JSONMetrics = [missingMetric, firstMetric, otherMetric, selfMetric, firstMetric],
        Data = ''[7,9]'', Logger = ()\<rparr>)) = 2"
  using status_observation_first_once
    [of example_env
      "\<lparr>JSONMetrics = [missingMetric, firstMetric, otherMetric, selfMetric, firstMetric],
        Data = ''[7,9]'', Logger = ()\<rparr>"]
  by (simp add: Collect_simps example_simps missingMetric_def firstMetric_def otherMetric_def
      selfMetric_def)

text \<open>
  C7 (label resolution returns one label for each path, an empty string for a failing path,
  and goes on after a failure). On the paths \<open>{[0]}\<close>, \<open>eu\<close>, \<open>{[1]}\<close>
  \<open>extractLabelsWithParentNode\<close> panics at the second path and returns no list, where
  \<open>extractLabels\<close> returns the three labels. When it returns, its list has the length of the
  paths (\<open>length_extractLabelsWithParentNode\<close>), as the list of \<open>extractLabels\<close> always has
  (\<open>length_extractLabels\<close>).
\<close>

theorem extractLabelsWithParentNode_short_path_panics:
  "extractLabelsWithParentNode () example_env ''[1,10]'' ''[[1,10],[2,20]]''
     [''{[0]}'', ''eu'', ''{[1]}''] = Inl (Panic ''runtime error: slice bounds out of range'') \<and>
   extractLabels () example_env ''[1,10]'' [''{[0]}'', ''eu'', ''{[1]}''] = [''1'', ''eu'', ''10'']"
  by (simp add: Collect_simps example_simps)

text \<open>
  C8 (every ValueScrape descriptor whose key path matches a text that normalizes yields
  exactly one observation in a run). In a run over the descriptors \<open>selfMetric\<close>,
  \<open>firstMetric\<close> on the document \<open>[7,9]\<close>, the key path \<open>{[0]}\<close> of the ValueScrape descriptor
  \<open>firstMetric\<close> matches \<open>7\<close>, which normalizes; the ObjectScrape descriptor before it panics
  on its label path \<open>{@}\<close>, so the run ends before \<open>firstMetric\<close> is visited and sends no
  observation for it. In a run where no earlier descriptor panics the descriptor sends its
  one observation (\<open>ValueScrape_run\<close>), and it never sends more than one
  (\<open>ValueScrape_one_observation\<close>).
\<close>

theorem ValueScrape_after_panic_no_observation:
  "Type firstMetric = ValueScrape \<and>
   extractValue () example_env ''[7,9]'' (KeyJSONPath firstMetric) False = Inr ''7'' \<and>
   SanitizeValue example_env ''7'' = Inr 7 \<and>
   Collect_mc example_env
     \<lparr>JSONMetrics = [selfMetric, firstMetric], Data = ''[7,9]'', Logger = ()\<rparr> =
     ([exporterStatus], Some (Panic ''runtime error: slice bounds out of range''))"
  by (simp add: Collect_simps example_simps selfMetric_def firstMetric_def)

text \<open>
  C10: with no descriptors a run sends exactly the status observation, a gauge of value 0
  without labels, and returns; this holds for every document and every behaviour of the JSON
  libraries, which are never called. The assumption says that the metrics library accepts
  the status descriptor with no label values.
\<close>

theorem Collect_mc_no_descriptors:
  assumes "JSONMetrics mc = []" and "NewConstMetric_err env jsonExporterStatusDesc [] = None"
  shows "Collect_mc env mc =
     ([\<lparr>desc = jsonExporterStatusDesc, valueType = GaugeValue, metricValue = 0,
        labelValues = [], timestamp = None\<rparr>], None)"
  using assms by (simp add: Collect_mc_def MustNewConstMetric_def)

theorem Collect_mc_no_descriptors_witness:
  "JSONMetrics \<lparr>JSONMetrics = [], Data = ''not json'', Logger = ()\<rparr> = [] \<and>
   NewConstMetric_err example_env jsonExporterStatusDesc [] = None \<and>
   Collect_mc example_env \<lparr>JSONMetrics = [], Data = ''not json'', Logger = ()\<rparr> =
     ([\<lparr>desc = jsonExporterStatusDesc, valueType = GaugeValue, metricValue = 0,
        labelValues = [], timestamp = None\<rparr>], None)"
  using Collect_mc_no_descriptors
    [of "\<lparr>JSONMetrics = [], Data = ''not json'', Logger = ()\<rparr>" example_env]
  by (simp add: example_env_def jsonExporterStatusDesc_def)

end
